theory Spec2Isabelle
  imports Complex_Main "HOL-Library.Monad_Syntax"
begin

section \<open>JSON values and the schema library\<close>

text \<open>
  A JavaScript number that JSON text can denote: a finite one, idealised as a real, or an
  infinity, which is what a literal beyond the range of a double is parsed to
  (\<^verbatim>\<open>-1e999\<close> is \<^verbatim>\<open>-Infinity\<close>). No JSON text denotes \<^verbatim>\<open>NaN\<close>.
\<close>

datatype js_number = Finite real | PosInfinity | NegInfinity

text \<open>
  The value that \<^verbatim>\<open>response.json()\<close> resolves to. An object is an association list
  read with \<open>map_of\<close>.
\<close>

datatype json =
    JNull
  | JBool bool
  | JNum js_number
  | JStr string
  | JArr "json list"
  | JObj "(string \<times> json) list"

text \<open>
  The schemas of the source are built from six constructors of the zod library:
  \<^verbatim>\<open>z.string()\<close>, \<^verbatim>\<open>z.number()\<close>, \<^verbatim>\<open>z.null()\<close>, \<^verbatim>\<open>z.array(s)\<close>,
  \<^verbatim>\<open>s.nullable()\<close> and \<^verbatim>\<open>z.object({...})\<close>.
\<close>

datatype zod_schema =
    z_string
  | z_number
  | z_null
  | z_array zod_schema
  | z_nullable zod_schema
  | z_object "(string \<times> zod_schema) list"

text \<open>The type tag zod computes for a value; \<open>None\<close> is JavaScript's \<^verbatim>\<open>undefined\<close>
  (the value of a property that is absent).\<close>

datatype parsed_type =
  PT_undefined | PT_null | PT_boolean | PT_number | PT_string | PT_array | PT_object

fun getParsedType :: "json option \<Rightarrow> parsed_type" where
  "getParsedType None = PT_undefined"
| "getParsedType (Some JNull) = PT_null"
| "getParsedType (Some (JBool _)) = PT_boolean"
| "getParsedType (Some (JNum _)) = PT_number"
| "getParsedType (Some (JStr _)) = PT_string"
| "getParsedType (Some (JArr _)) = PT_array"
| "getParsedType (Some (JObj _)) = PT_object"

datatype path_elem = Key string | Index nat

type_synonym path = "path_elem list"

text \<open>One entry of \<^verbatim>\<open>error.errors\<close>: the only issue these schemas can raise is
  \<^verbatim>\<open>invalid_type\<close>, with the path of the offending value, the expected and the
  received type.\<close>

datatype zod_issue =
  invalid_type (issue_path: path) (expected: parsed_type) (received: parsed_type)

text \<open>
  The issues a schema reports on a value, in the order zod pushes them: a leaf schema
  checks the type tag; an array schema checks every element, under the path extended by
  the element's index; an object schema checks every key of its shape in the order of
  the shape, under the path extended by the key, reading an absent key as
  \<^verbatim>\<open>undefined\<close>; keys outside the shape are not looked at. Nothing stops at the first
  issue.
\<close>

fun issues :: "zod_schema \<Rightarrow> path \<Rightarrow> json option \<Rightarrow> zod_issue list"
  and issues_shape :: "(string \<times> zod_schema) list \<Rightarrow> path \<Rightarrow> (string \<times> json) list \<Rightarrow> zod_issue list"
  and issues_elems :: "zod_schema \<Rightarrow> path \<Rightarrow> nat \<Rightarrow> json list \<Rightarrow> zod_issue list"
where
  "issues z_string p v =
     (case v of Some (JStr _) \<Rightarrow> [] | _ \<Rightarrow> [invalid_type p PT_string (getParsedType v)])"
| "issues z_number p v =
     (case v of Some (JNum _) \<Rightarrow> [] | _ \<Rightarrow> [invalid_type p PT_number (getParsedType v)])"
| "issues z_null p v =
     (case v of Some JNull \<Rightarrow> [] | _ \<Rightarrow> [invalid_type p PT_null (getParsedType v)])"
| "issues (z_array s) p v =
     (case v of Some (JArr xs) \<Rightarrow> issues_elems s p 0 xs
      | _ \<Rightarrow> [invalid_type p PT_array (getParsedType v)])"
| "issues (z_nullable s) p v =
     (case v of Some JNull \<Rightarrow> [] | _ \<Rightarrow> issues s p v)"
| "issues (z_object shape) p v =
     (case v of Some (JObj fs) \<Rightarrow> issues_shape shape p fs
      | _ \<Rightarrow> [invalid_type p PT_object (getParsedType v)])"
| "issues_shape [] p fs = []"
| "issues_shape ((k, s) # shape) p fs =
     issues s (p @ [Key k]) (map_of fs k) @ issues_shape shape p fs"
| "issues_elems s p i [] = []"
| "issues_elems s p i (x # xs) =
     issues s (p @ [Index i]) (Some x) @ issues_elems s p (Suc i) xs"


section \<open>The schemas of the source\<close>

definition TopLogProbSchema :: zod_schema where
  "TopLogProbSchema = z_object
     [(''token'', z_string),
      (''logprob'', z_number),
      (''bytes'', z_nullable (z_array z_number))]"

definition LogProbContentSchema :: zod_schema where
  "LogProbContentSchema = z_object
     [(''token'', z_string),
      (''logprob'', z_number),
      (''bytes'', z_array z_number),
      (''top_logprobs'', z_array TopLogProbSchema)]"

definition MessageSchema :: zod_schema where
  "MessageSchema = z_object
     [(''role'', z_string),
      (''content'', z_string)]"

definition ChoiceSchema :: zod_schema where
  "ChoiceSchema = z_object
     [(''index'', z_number),
      (''message'', MessageSchema),
      (''logprobs'', z_object [(''content'', z_array LogProbContentSchema)]),
      (''finish_reason'', z_string)]"

definition UsageSchema :: zod_schema where
  "UsageSchema = z_object
     [(''prompt_tokens'', z_number),
      (''completion_tokens'', z_number),
      (''total_tokens'', z_number)]"

definition ChatCompletionSchema :: zod_schema where
  "ChatCompletionSchema = z_object
     [(''id'', z_string),
      (''object'', z_string),
      (''created'', z_number),
      (''model'', z_string),
      (''choices'', z_array ChoiceSchema),
      (''usage'', UsageSchema),
      (''system_fingerprint'', z_null)]"

section \<open>The typed completion\<close>

text \<open>
  \<^verbatim>\<open>type ChatCompletion = z.infer<typeof ChatCompletionSchema>\<close>: one record for each
  object schema, with the fields of its shape. Fields that two shapes share by name are
  told apart by a prefix (\<open>top_\<close> for the fields of \<open>TopLogProbSchema\<close>,
  \<open>logprobs_content\<close> for the \<^verbatim>\<open>content\<close> of \<^verbatim>\<open>logprobs\<close>), and \<^verbatim>\<open>id\<close> is
  \<open>completion_id\<close>. The type of \<^verbatim>\<open>system_fingerprint\<close> is \<^verbatim>\<open>null\<close>, a type with one
  value.
\<close>

record TopLogProb =
  top_token :: string
  top_logprob :: js_number
  top_bytes :: "js_number list option"

record LogProbContent =
  token :: string
  logprob :: js_number
  bytes :: "js_number list"
  top_logprobs :: "TopLogProb list"

record Message =
  role :: string
  content :: string

record LogProbs =
  logprobs_content :: "LogProbContent list"

record Choice =
  index :: js_number
  message :: Message
  logprobs :: LogProbs
  finish_reason :: string

record Usage =
  prompt_tokens :: js_number
  completion_tokens :: js_number
  total_tokens :: js_number

record ChatCompletion =
  completion_id :: string
  object :: string
  created :: js_number
  model :: string
  choices :: "Choice list"
  usage :: Usage
  system_fingerprint :: unit

text \<open>
  Reading a JSON value at these types. Each reader follows the shape of its schema and
  reads only the keys of the shape, so keys outside the shape are dropped, as zod's
  object schema drops them from the value it returns.
\<close>

fun as_string :: "json option \<Rightarrow> string option" where
  "as_string (Some (JStr s)) = Some s"
| "as_string _ = None"

fun as_number :: "json option \<Rightarrow> js_number option" where
  "as_number (Some (JNum r)) = Some r"
| "as_number _ = None"

fun as_null :: "json option \<Rightarrow> unit option" where
  "as_null (Some JNull) = Some ()"
| "as_null _ = None"

fun as_object :: "json option \<Rightarrow> (string \<Rightarrow> json option) option" where
  "as_object (Some (JObj fs)) = Some (map_of fs)"
| "as_object _ = None"

definition as_array :: "(json option \<Rightarrow> 'a option) \<Rightarrow> json option \<Rightarrow> 'a list option" where
  "as_array f v =
     (case v of Some (JArr xs) \<Rightarrow> those (map (\<lambda>x. f (Some x)) xs) | _ \<Rightarrow> None)"

definition as_nullable :: "(json option \<Rightarrow> 'a option) \<Rightarrow> json option \<Rightarrow> 'a option option" where
  "as_nullable f v = (case v of Some JNull \<Rightarrow> Some None | _ \<Rightarrow> map_option Some (f v))"

definition as_TopLogProb :: "json option \<Rightarrow> TopLogProb option" where
  "as_TopLogProb v = do {
     get \<leftarrow> as_object v;
     t \<leftarrow> as_string (get ''token'');
     l \<leftarrow> as_number (get ''logprob'');
     b \<leftarrow> as_nullable (as_array as_number) (get ''bytes'');
     Some \<lparr>top_token = t, top_logprob = l, top_bytes = b\<rparr>
   }"

definition as_LogProbContent :: "json option \<Rightarrow> LogProbContent option" where
  "as_LogProbContent v = do {
     get \<leftarrow> as_object v;
     t \<leftarrow> as_string (get ''token'');
     l \<leftarrow> as_number (get ''logprob'');
     b \<leftarrow> as_array as_number (get ''bytes'');
     tops \<leftarrow> as_array as_TopLogProb (get ''top_logprobs'');
     Some \<lparr>token = t, logprob = l, bytes = b, top_logprobs = tops\<rparr>
   }"

definition as_Message :: "json option \<Rightarrow> Message option" where
  "as_Message v = do {
     get \<leftarrow> as_object v;
     r \<leftarrow> as_string (get ''role'');
     c \<leftarrow> as_string (get ''content'');
     Some \<lparr>role = r, content = c\<rparr>
   }"

definition as_LogProbs :: "json option \<Rightarrow> LogProbs option" where
  "as_LogProbs v = do {
     get \<leftarrow> as_object v;
     c \<leftarrow> as_array as_LogProbContent (get ''content'');
     Some \<lparr>logprobs_content = c\<rparr>
   }"

definition as_Choice :: "json option \<Rightarrow> Choice option" where
  "as_Choice v = do {
     get \<leftarrow> as_object v;
     i \<leftarrow> as_number (get ''index'');
     m \<leftarrow> as_Message (get ''message'');
     l \<leftarrow> as_LogProbs (get ''logprobs'');
     f \<leftarrow> as_string (get ''finish_reason'');
     Some \<lparr>index = i, message = m, logprobs = l, finish_reason = f\<rparr>
   }"

definition as_Usage :: "json option \<Rightarrow> Usage option" where
  "as_Usage v = do {
     get \<leftarrow> as_object v;
     p \<leftarrow> as_number (get ''prompt_tokens'');
     c \<leftarrow> as_number (get ''completion_tokens'');
     t \<leftarrow> as_number (get ''total_tokens'');
     Some \<lparr>prompt_tokens = p, completion_tokens = c, total_tokens = t\<rparr>
   }"

definition as_ChatCompletion :: "json option \<Rightarrow> ChatCompletion option" where
  "as_ChatCompletion v = do {
     get \<leftarrow> as_object v;
     i \<leftarrow> as_string (get ''id'');
     ob \<leftarrow> as_string (get ''object'');
     cr \<leftarrow> as_number (get ''created'');
     mo \<leftarrow> as_string (get ''model'');
     chs \<leftarrow> as_array as_Choice (get ''choices'');
     us \<leftarrow> as_Usage (get ''usage'');
     fp \<leftarrow> as_null (get ''system_fingerprint'');
     Some \<lparr>completion_id = i, object = ob, created = cr, model = mo, choices = chs,
            usage = us, system_fingerprint = fp\<rparr>
   }"

text \<open>
  \<^verbatim>\<open>ChatCompletionSchema.safeParse(data)\<close>: failure with the issues when there is one,
  success with the data at its inferred type otherwise. The last branch (no issue and no
  typed reading) is never taken, see \<open>safeParse_failure_has_issue\<close>.
\<close>

definition ChatCompletionSchema_safeParse :: "json \<Rightarrow> zod_issue list + ChatCompletion" where
  "ChatCompletionSchema_safeParse data =
     (case issues ChatCompletionSchema [] (Some data) of
        [] \<Rightarrow> (case as_ChatCompletion (Some data) of Some c \<Rightarrow> Inr c | None \<Rightarrow> Inl [])
      | errors \<Rightarrow> Inl errors)"


section \<open>Rendering the token columns\<close>

text \<open>
  What \<^verbatim>\<open>renderTokenColumns\<close> builds: one column for each element of
  \<^verbatim>\<open>choices[0].logprobs.content\<close>, with its React key, the header text and one cell for
  each element of \<^verbatim>\<open>top_logprobs\<close>; a cell has its React key, its class name and the
  two parts of its text \<^verbatim>\<open>{alternativeToken}: {...}%\<close>. The class names of the column
  and of the header are constants and are left out.
\<close>

record alternative_cell =
  cell_key :: nat
  cell_className :: string
  cell_token :: string
  cell_percent :: string

record token_column =
  column_key :: nat
  column_header :: string
  column_cells :: "alternative_cell list"

text \<open>Reading a property of \<^verbatim>\<open>undefined\<close> throws a \<^verbatim>\<open>TypeError\<close>.\<close>

datatype js_error = TypeError

text \<open>
  The parameter \<open>percent\<close> stands for \<^verbatim>\<open>(Math.exp(logprob)*100).toFixed(3)\<close>, which is
  \<open>percentText\<close> below.
\<close>

definition render_alternative ::
  "(js_number \<Rightarrow> string) \<Rightarrow> LogProbContent \<Rightarrow> TopLogProb \<Rightarrow> nat \<Rightarrow> alternative_cell" where
  "render_alternative percent tok alt i =
     \<lparr>cell_key = i,
      cell_className =
        ''p-2 '' @ (if top_token alt = token tok then ''bg-blue-200'' else ''bg-gray-100'')
          @ '' rounded mb-1 text-sm'',
      cell_token = top_token alt,
      cell_percent = percent (top_logprob alt)\<rparr>"

definition render_column ::
  "(js_number \<Rightarrow> string) \<Rightarrow> LogProbContent \<Rightarrow> nat \<Rightarrow> token_column" where
  "render_column percent tok i =
     \<lparr>column_key = i,
      column_header = token tok,
      column_cells =
        map (\<lambda>(k, alt). render_alternative percent tok alt k) (enumerate 0 (top_logprobs tok))\<rparr>"

text \<open>
  \<^verbatim>\<open>completion?.choices[0].logprobs.content.map(...)\<close>: \<^verbatim>\<open>undefined\<close> (\<open>Inr None\<close>) when
  no completion is held; otherwise \<^verbatim>\<open>choices[0]\<close> is read, which is \<^verbatim>\<open>undefined\<close> for
  an empty array, and reading \<^verbatim>\<open>.logprobs\<close> of it throws.
\<close>

definition renderTokenColumns ::
  "(js_number \<Rightarrow> string) \<Rightarrow> ChatCompletion option \<Rightarrow> js_error + token_column list option" where
  "renderTokenColumns percent completion =
     (case completion of
        None \<Rightarrow> Inr None
      | Some c \<Rightarrow>
          (case choices c of
             [] \<Rightarrow> Inl TypeError
           | choice0 # _ \<Rightarrow>
               Inr (Some (map (\<lambda>(i, tok). render_column percent tok i)
                            (enumerate 0 (logprobs_content (logprobs choice0)))))))"

text \<open>A cell is shown as the chosen token when it carries the highlighting class.\<close>

definition isChosen :: "alternative_cell \<Rightarrow> bool" where
  "isChosen cell = (cell_className cell = ''p-2 bg-blue-200 rounded mb-1 text-sm'')"

section \<open>The percentage text\<close>











section \<open>The component's state and \<^verbatim>\<open>fetchCompletion\<close>\<close>

record component_state =
  systemPrompt :: string
  userPrompt :: string
  temperature :: real
  apiKey :: string
  topTokens :: real
  completion :: "ChatCompletion option"
  loading :: bool

text \<open>What the network gives back: \<^verbatim>\<open>fetch\<close> rejects, \<^verbatim>\<open>response.json()\<close> rejects, or
  \<^verbatim>\<open>response.json()\<close> resolves to a value.\<close>

datatype fetch_outcome = fetch_rejects | json_rejects | json_resolves json

datatype console_error =
    Error_parsing_completion "zod_issue list"
  | Error_fetching_completion

text \<open>The state after \<^verbatim>\<open>fetchCompletion\<close> has run to its end, and what it wrote to the
  console.\<close>

definition fetchCompletion ::
  "component_state \<Rightarrow> fetch_outcome \<Rightarrow> component_state \<times> console_error list" where
  "fetchCompletion st outcome =
     (let st1 = st\<lparr>loading := True\<rparr> in
      case outcome of
        json_resolves data \<Rightarrow>
          (case ChatCompletionSchema_safeParse data of
             Inr c \<Rightarrow> (st1\<lparr>completion := Some c, loading := False\<rparr>, [])
           | Inl errors \<Rightarrow> (st1\<lparr>loading := False\<rparr>, [Error_parsing_completion errors]))
      | _ \<Rightarrow> (st1\<lparr>loading := False\<rparr>, [Error_fetching_completion]))"

section \<open>Positions in a document\<close>

text \<open>
  The schema and the value that the validator meets at a path below a schema and a
  value: a key steps into an object along the shape, an index into an array, and a
  nullable schema hands a value that is not \<^verbatim>\<open>null\<close> to its inner schema. An absent key
  is met as \<open>None\<close>.
\<close>

fun locate :: "zod_schema \<Rightarrow> json option \<Rightarrow> path \<Rightarrow> (zod_schema \<times> json option) option" where
  "locate s v [] = Some (s, v)"
| "locate (z_object shape) (Some (JObj fs)) (Key k # p) =
     (case map_of shape k of Some s \<Rightarrow> locate s (map_of fs k) p | None \<Rightarrow> None)"
| "locate (z_array s) (Some (JArr xs)) (Index i # p) =
     (if i < length xs then locate s (Some (xs ! i)) p else None)"
| "locate (z_nullable s) v (e # p) =
     (if v = Some JNull then None else locate s v (e # p))"
| "locate _ _ _ = None"

text \<open>The type tag a schema asks for in the issue it raises itself.\<close>

fun expected_type :: "zod_schema \<Rightarrow> parsed_type" where
  "expected_type z_string = PT_string"
| "expected_type z_number = PT_number"
| "expected_type z_null = PT_null"
| "expected_type (z_array _) = PT_array"
| "expected_type (z_nullable s) = expected_type s"
| "expected_type (z_object _) = PT_object"

text \<open>The paths of \<^verbatim>\<open>created\<close>, of the three fields of \<^verbatim>\<open>usage\<close> and of the elements
  of the \<^verbatim>\<open>bytes\<close> of an element of \<^verbatim>\<open>choices[i].logprobs.content\<close>.\<close>

fun count_field :: "path \<Rightarrow> bool" where
  "count_field [Key k] = (k = ''created'')"
| "count_field [Key u, Key k] =
     (u = ''usage'' \<and> (k = ''prompt_tokens'' \<or> k = ''completion_tokens'' \<or> k = ''total_tokens''))"
| "count_field [Key c, Index i, Key l, Key t, Index j, Key b, Index k] =
     (c = ''choices'' \<and> l = ''logprobs'' \<and> t = ''content'' \<and> b = ''bytes'')"
| "count_field _ = False"

section \<open>The JSON form of a typed completion\<close>

text \<open>
  Modelled from the spec: the source has no serializer. The spec's \<open>serialize\<close> is taken
  as the JSON value that has, under the keys of the schemas, the fields of the typed
  value, each number as it is, with \<^verbatim>\<open>null\<close> for \<^verbatim>\<open>system_fingerprint\<close> and for an
  absent \<^verbatim>\<open>bytes\<close>. It is built from one function for each record.
\<close>

text \<open>Modelled from the spec: the JSON form of a \<open>TopLogProb\<close> (no serializer in the
  source).\<close>

definition serialize_TopLogProb :: "TopLogProb \<Rightarrow> json" where
  "serialize_TopLogProb t = JObj
     [(''token'', JStr (top_token t)),
      (''logprob'', JNum (top_logprob t)),
      (''bytes'', case top_bytes t of None \<Rightarrow> JNull | Some bs \<Rightarrow> JArr (map JNum bs))]"

text \<open>Modelled from the spec: the JSON form of a \<open>LogProbContent\<close> (no serializer in the
  source).\<close>

definition serialize_LogProbContent :: "LogProbContent \<Rightarrow> json" where
  "serialize_LogProbContent t = JObj
     [(''token'', JStr (token t)),
      (''logprob'', JNum (logprob t)),
      (''bytes'', JArr (map JNum (bytes t))),
      (''top_logprobs'', JArr (map serialize_TopLogProb (top_logprobs t)))]"

text \<open>Modelled from the spec: the JSON form of a \<open>Message\<close> (no serializer in the
  source).\<close>

definition serialize_Message :: "Message \<Rightarrow> json" where
  "serialize_Message m = JObj [(''role'', JStr (role m)), (''content'', JStr (content m))]"

text \<open>Modelled from the spec: the JSON form of a \<open>Choice\<close> (no serializer in the
  source).\<close>

definition serialize_Choice :: "Choice \<Rightarrow> json" where
  "serialize_Choice ch = JObj
     [(''index'', JNum (index ch)),
      (''message'', serialize_Message (message ch)),
      (''logprobs'',
         JObj [(''content'', JArr (map serialize_LogProbContent (logprobs_content (logprobs ch))))]),
      (''finish_reason'', JStr (finish_reason ch))]"

text \<open>Modelled from the spec: the JSON form of a \<open>Usage\<close> (no serializer in the
  source).\<close>

definition serialize_Usage :: "Usage \<Rightarrow> json" where
  "serialize_Usage u = JObj
     [(''prompt_tokens'', JNum (prompt_tokens u)),
      (''completion_tokens'', JNum (completion_tokens u)),
      (''total_tokens'', JNum (total_tokens u))]"

text \<open>Modelled from the spec: \<open>serialize\<close>, the JSON form of a \<open>ChatCompletion\<close> (no
  serializer in the source).\<close>

definition serialize :: "ChatCompletion \<Rightarrow> json" where
  "serialize c = JObj
     [(''id'', JStr (completion_id c)),
      (''object'', JStr (object c)),
      (''created'', JNum (created c)),
      (''model'', JStr (model c)),
      (''choices'', JArr (map serialize_Choice (choices c))),
      (''usage'', serialize_Usage (usage c)),
      (''system_fingerprint'', JNull)]"

section \<open>Example documents\<close>

definition example_token :: LogProbContent where
  "example_token =
     \<lparr>token = ''Hi'', logprob = Finite (- 105 / 1000), bytes = [Finite 72, Finite 105],
      top_logprobs =
        [\<lparr>top_token = ''Hi'', top_logprob = Finite (- 105 / 1000),
          top_bytes = Some [Finite 72, Finite 105]\<rparr>,
         \<lparr>top_token = ''Hello'', top_logprob = Finite (- 2303 / 1000), top_bytes = None\<rparr>]\<rparr>"

definition example_choice :: "LogProbContent list \<Rightarrow> Choice" where
  "example_choice toks =
     \<lparr>index = Finite 0,
      message = \<lparr>role = ''assistant'', content = ''Hi''\<rparr>,
      logprobs = \<lparr>logprobs_content = toks\<rparr>,
      finish_reason = ''stop''\<rparr>"

definition example_completion :: "Choice list \<Rightarrow> ChatCompletion" where
  "example_completion chs =
     \<lparr>completion_id = ''chatcmpl-1'', object = ''chat.completion'', created = Finite 1700000000,
      model = ''gpt-3.5-turbo'', choices = chs,
      usage = \<lparr>prompt_tokens = Finite 9, completion_tokens = Finite 1, total_tokens = Finite 10\<rparr>,
      system_fingerprint = ()\<rparr>"

text \<open>A document with the given \<^verbatim>\<open>created\<close>, \<^verbatim>\<open>choices\<close>, fields of \<^verbatim>\<open>usage\<close> and
  trailing fields.\<close>

definition example_document ::
  "json \<Rightarrow> json list \<Rightarrow> (string \<times> json) list \<Rightarrow> (string \<times> json) list \<Rightarrow> json" where
  "example_document cr chs us rest = JObj
     ([(''id'', JStr ''chatcmpl-1''),
       (''object'', JStr ''chat.completion''),
       (''created'', cr),
       (''model'', JStr ''gpt-3.5-turbo''),
       (''choices'', JArr chs),
       (''usage'', JObj us)] @ rest)"

definition example_usage :: "(string \<times> json) list" where
  "example_usage =
     [(''prompt_tokens'', JNum (Finite 9)), (''completion_tokens'', JNum (Finite 1)),
      (''total_tokens'', JNum (Finite 10))]"

text \<open>A document whose \<^verbatim>\<open>created\<close>, \<^verbatim>\<open>usage.prompt_tokens\<close> and first element of
  \<^verbatim>\<open>bytes\<close> are numbers that are not integers, and the typed value it is read as.\<close>

definition fractional_document :: json where
  "fractional_document =
     example_document (JNum (Finite (3 / 2)))
       [JObj
          [(''index'', JNum (Finite 0)),
           (''message'', JObj [(''role'', JStr ''assistant''), (''content'', JStr ''Hi'')]),
           (''logprobs'', JObj
              [(''content'', JArr
                  [JObj
                     [(''token'', JStr ''Hi''),
                      (''logprob'', JNum (Finite (- 105 / 1000))),
                      (''bytes'', JArr [JNum (Finite (145 / 2)), JNum (Finite 105)]),
                      (''top_logprobs'', JArr [])]])]),
           (''finish_reason'', JStr ''stop'')]]
       [(''prompt_tokens'', JNum (Finite (1 / 2))), (''completion_tokens'', JNum (Finite 1)),
        (''total_tokens'', JNum (Finite 10))]
       [(''system_fingerprint'', JNull)]"

definition fractional_completion :: ChatCompletion where
  "fractional_completion =
     \<lparr>completion_id = ''chatcmpl-1'', object = ''chat.completion'', created = Finite (3 / 2),
      model = ''gpt-3.5-turbo'',
      choices =
        [example_choice
           [\<lparr>token = ''Hi'', logprob = Finite (- 105 / 1000),
             bytes = [Finite (145 / 2), Finite 105], top_logprobs = []\<rparr>]],
      usage = \<lparr>prompt_tokens = Finite (1 / 2), completion_tokens = Finite 1,
               total_tokens = Finite 10\<rparr>,
      system_fingerprint = ()\<rparr>"




definition example_state :: component_state where
  "example_state =
     \<lparr>systemPrompt = [], userPrompt = [], temperature = 7 / 10, apiKey = [],
      topTokens = 5, completion = Some (example_completion []), loading = False\<rparr>"

section \<open>Unfolding rules for evaluation\<close>

lemmas example_defs = example_document_def example_usage_def example_completion_def
  example_choice_def example_token_def
lemmas schema_defs = ChatCompletionSchema_def UsageSchema_def ChoiceSchema_def MessageSchema_def
  LogProbContentSchema_def TopLogProbSchema_def
lemmas reader_defs = as_ChatCompletion_def as_Usage_def as_Choice_def as_Message_def
  as_LogProbs_def as_LogProbContent_def as_TopLogProb_def as_array_def as_nullable_def

section \<open>Issues are local\<close>

text \<open>An issue raised at a position that the validator reaches is among the issues of
  the whole document, under the path of that position.\<close>

lemma issues_undefined: "issues s p None = [invalid_type p (expected_type s) PT_undefined]"
  by (induction s arbitrary: p) simp_all

lemma issues_shape_mem:
  "map_of shape k = Some s \<Longrightarrow>
   set (issues s (p @ [Key k]) (map_of fs k)) \<subseteq> set (issues_shape shape p fs)"
  by (induction shape) (auto split: if_splits)

lemma issues_elems_mem:
  "i < length xs \<Longrightarrow>
   set (issues s (p @ [Index (n + i)]) (Some (xs ! i))) \<subseteq> set (issues_elems s p n xs)"
proof (induction xs arbitrary: n i)
  case Nil
  then show ?case by simp
next
  case (Cons x xs)
  show ?case
  proof (cases i)
    case 0
    then show ?thesis by simp
  next
    case (Suc m)
    with Cons.prems have "m < length xs" by simp
    from Cons.IH [OF this, of "Suc n"] Suc show ?thesis by auto
  qed
qed

lemma locate_issues:
  "locate S v q = Some (s, w) \<Longrightarrow> set (issues s (p @ q) w) \<subseteq> set (issues S p v)"
proof (induction S v q arbitrary: p rule: locate.induct)
  case (1 s v)
  then show ?case by simp
next
  case (2 shape fs k q)
  then obtain s' where s': "map_of shape k = Some s'" and l: "locate s' (map_of fs k) q = Some (s, w)"
    by (auto split: option.splits)
  from "2.IH" [OF s' l, of "p @ [Key k]"] issues_shape_mem [OF s', of p fs]
  show ?case by auto
next
  case (3 s' xs i q)
  then have i: "i < length xs" and l: "locate s' (Some (xs ! i)) q = Some (s, w)"
    by (auto split: if_splits)
  from "3.IH" [OF i l, of "p @ [Index i]"] issues_elems_mem [OF i, of s' p 0]
  show ?case by auto
next
  case (4 s' v e q)
  then have n: "v \<noteq> Some JNull" and l: "locate s' v (e # q) = Some (s, w)"
    by (auto split: if_splits)
  from "4.IH" [OF n l, of p] n show ?case
    by (auto split: option.splits json.splits)
qed simp_all


lemma safeParse_no_issue:
  "ChatCompletionSchema_safeParse data = Inr c \<Longrightarrow> issues ChatCompletionSchema [] (Some data) = []"
  by (auto simp: ChatCompletionSchema_safeParse_def split: list.splits option.splits)

lemma safeParse_issue:
  "issues ChatCompletionSchema [] (Some data) \<noteq> [] \<Longrightarrow>
   ChatCompletionSchema_safeParse data = Inl (issues ChatCompletionSchema [] (Some data))"
  by (auto simp: ChatCompletionSchema_safeParse_def split: list.splits)

lemma located_issue_fails:
  assumes l: "locate ChatCompletionSchema (Some data) p = Some (s, v)"
    and i: "e \<in> set (issues s p v)"
  shows "\<exists>errors. ChatCompletionSchema_safeParse data = Inl errors \<and> e \<in> set errors"
proof -
  from locate_issues [OF l, of "[]"] i
  have e: "e \<in> set (issues ChatCompletionSchema [] (Some data))" by auto
  then have "issues ChatCompletionSchema [] (Some data) \<noteq> []" by auto
  from safeParse_issue [OF this] e show ?thesis by simp
qed

section \<open>Validation\<close>

lemma locate_object_Key:
  assumes "locate (z_object shape) v (Key k # q) = Some r"
  obtains fs s where "v = Some (JObj fs)" "map_of shape k = Some s"
    "locate s (map_of fs k) q = Some r"
proof (cases v)
  case None
  with assms show ?thesis by simp
next
  case (Some j)
  with assms show ?thesis
    by (cases j) (auto split: option.splits intro: that)
qed

lemma locate_array_Index:
  assumes "locate (z_array s) v (Index i # q) = Some r"
  obtains xs where "v = Some (JArr xs)" "i < length xs" "locate s (Some (xs ! i)) q = Some r"
proof (cases v)
  case None
  with assms show ?thesis by simp
next
  case (Some j)
  with assms show ?thesis
    by (cases j) (auto split: if_splits intro: that)
qed

lemma count_field_number:
  assumes l: "locate ChatCompletionSchema (Some data) p = Some (s, v)" and c: "count_field p"
  shows "s = z_number"
  using c
proof (cases p rule: count_field.cases)
  case (1 k)
  with c have p: "p = [Key ''created'']" by simp
  from l show ?thesis unfolding p ChatCompletionSchema_def
    by (auto elim!: locate_object_Key)
next
  case (2 u k)
  with c have p: "p = [Key ''usage'', Key k]"
    and k: "k = ''prompt_tokens'' \<or> k = ''completion_tokens'' \<or> k = ''total_tokens''" by simp_all
  from l k show ?thesis unfolding p ChatCompletionSchema_def UsageSchema_def
    by (auto elim!: locate_object_Key)
next
  case (3 c' i l' t j b k)
  with c have p: "p = [Key ''choices'', Index i, Key ''logprobs'', Key ''content'', Index j,
      Key ''bytes'', Index k]" by simp
  from l show ?thesis
    unfolding p ChatCompletionSchema_def ChoiceSchema_def LogProbContentSchema_def
    by (auto elim!: locate_object_Key locate_array_Index)
qed (use c in simp_all)

text \<open>
  Claim C4, as amended. The schema types \<^verbatim>\<open>created\<close>, the three fields of \<^verbatim>\<open>usage\<close>
  and the elements of \<^verbatim>\<open>bytes\<close> of an emitted token with \<^verbatim>\<open>z.number()\<close>: at such a
  position the validator raises no issue exactly when the value is a number, integer or
  not, and a value that is absent or not a number makes \<^verbatim>\<open>safeParse\<close> fail with an
  issue that names the position, the expected type \<^verbatim>\<open>number\<close> and the received type.
\<close>

theorem non_number_count_field_rejected:
  assumes l: "locate ChatCompletionSchema (Some data) p = Some (s, v)" and c: "count_field p"
  shows "s = z_number \<and> (issues s p v = [] \<longleftrightarrow> (\<exists>r. v = Some (JNum r))) \<and>
    (as_number v = None \<longrightarrow>
       (\<exists>errors. ChatCompletionSchema_safeParse data = Inl errors \<and>
          invalid_type p PT_number (getParsedType v) \<in> set errors))"
proof -
  have s: "s = z_number" using l c by (rule count_field_number)
  have a: "issues z_number p v = [] \<longleftrightarrow> (\<exists>r. v = Some (JNum r))"
    by (auto split: option.splits json.splits)
  have b: "\<exists>errors. ChatCompletionSchema_safeParse data = Inl errors \<and>
          invalid_type p PT_number (getParsedType v) \<in> set errors" if "as_number v = None"
  proof (rule located_issue_fails [OF l])
    from that show "invalid_type p PT_number (getParsedType v) \<in> set (issues s p v)"
      unfolding s by (auto split: option.splits json.splits)
  qed
  from s a b show ?thesis by blast
qed

theorem non_number_count_field_rejected_witness:
  "locate ChatCompletionSchema
     (Some (example_document (JStr ''now'') [] example_usage [(''system_fingerprint'', JNull)]))
     [Key ''created''] = Some (z_number, Some (JStr ''now'')) \<and>
   count_field [Key ''created''] \<and>
   as_number (Some (JStr ''now'')) = None \<and>
   (\<exists>errors. ChatCompletionSchema_safeParse
       (example_document (JStr ''now'') [] example_usage [(''system_fingerprint'', JNull)])
       = Inl errors \<and> invalid_type [Key ''created''] PT_number PT_string \<in> set errors)"
proof -
  have l: "locate ChatCompletionSchema
     (Some (example_document (JStr ''now'') [] example_usage [(''system_fingerprint'', JNull)]))
     [Key ''created''] = Some (z_number, Some (JStr ''now''))"
    by (simp add: example_defs schema_defs)
  have c: "count_field [Key ''created'']" by simp
  from non_number_count_field_rejected [OF l c] l c show ?thesis by simp
qed

lemma odd_half_not_int:
  assumes "odd k"
  shows "(of_int k / 2 :: real) \<notin> \<int>"
proof
  assume "(of_int k / 2 :: real) \<in> \<int>"
  then obtain m :: int where "(of_int k / 2 :: real) = of_int m" by (auto elim: Ints_cases)
  then have "(of_int k :: real) = of_int (2 * m)" by simp
  then have "k = 2 * m" by (simp only: of_int_eq_iff)
  with assms show False by simp
qed

text \<open>
  Claim C4 as stated fails: a document whose \<^verbatim>\<open>created\<close> is 1.5, whose
  \<^verbatim>\<open>usage.prompt_tokens\<close> is 0.5 and whose first emitted token has 72.5 among its
  \<^verbatim>\<open>bytes\<close>, none of them an integer, is accepted.
\<close>

theorem non_integer_numbers_accepted:
  "(3 / 2 :: real) \<notin> \<int> \<and> (1 / 2 :: real) \<notin> \<int> \<and> (145 / 2 :: real) \<notin> \<int> \<and>
   locate ChatCompletionSchema (Some fractional_document) [Key ''created'']
     = Some (z_number, Some (JNum (Finite (3 / 2)))) \<and>
   locate ChatCompletionSchema (Some fractional_document) [Key ''usage'', Key ''prompt_tokens'']
     = Some (z_number, Some (JNum (Finite (1 / 2)))) \<and>
   locate ChatCompletionSchema (Some fractional_document)
     [Key ''choices'', Index 0, Key ''logprobs'', Key ''content'', Index 0, Key ''bytes'', Index 0]
     = Some (z_number, Some (JNum (Finite (145 / 2)))) \<and>
   ChatCompletionSchema_safeParse fractional_document = Inr fractional_completion"
proof -
  have a: "(3 / 2 :: real) \<notin> \<int>" using odd_half_not_int [of 3] by simp
  have b: "(1 / 2 :: real) \<notin> \<int>" using odd_half_not_int [of 1] by simp
  have c: "(145 / 2 :: real) \<notin> \<int>" using odd_half_not_int [of 145] by simp
  have l1: "locate ChatCompletionSchema (Some fractional_document) [Key ''created'']
     = Some (z_number, Some (JNum (Finite (3 / 2))))"
    by (simp add: fractional_document_def example_defs schema_defs)
  have l2: "locate ChatCompletionSchema (Some fractional_document)
     [Key ''usage'', Key ''prompt_tokens''] = Some (z_number, Some (JNum (Finite (1 / 2))))"
    by (simp add: fractional_document_def example_defs schema_defs)
  have l3: "locate ChatCompletionSchema (Some fractional_document)
     [Key ''choices'', Index 0, Key ''logprobs'', Key ''content'', Index 0, Key ''bytes'', Index 0]
     = Some (z_number, Some (JNum (Finite (145 / 2))))"
    by (simp add: fractional_document_def example_defs schema_defs)
  have p: "ChatCompletionSchema_safeParse fractional_document = Inr fractional_completion"
    by (simp add: ChatCompletionSchema_safeParse_def fractional_document_def
        fractional_completion_def example_defs schema_defs reader_defs)
  from a b c l1 l2 l3 p show ?thesis by (intro conjI)
qed

text \<open>
  Claim C5. \<^verbatim>\<open>safeParse\<close> succeeds only on an object whose \<^verbatim>\<open>system_fingerprint\<close> is
  present and is \<^verbatim>\<open>null\<close>: with any other value there, or with the key absent, it
  fails.
\<close>

theorem system_fingerprint_must_be_null:
  assumes "ChatCompletionSchema_safeParse data = Inr c"
  shows "\<exists>fs. data = JObj fs \<and> map_of fs ''system_fingerprint'' = Some JNull"
proof -
  from assms have n: "issues ChatCompletionSchema [] (Some data) = []" by (rule safeParse_no_issue)
  then obtain fs where d: "data = JObj fs"
    by (cases data) (auto simp: ChatCompletionSchema_def)
  have "locate ChatCompletionSchema (Some data) [Key ''system_fingerprint'']
      = Some (z_null, map_of fs ''system_fingerprint'')"
    by (simp add: d ChatCompletionSchema_def)
  from locate_issues [OF this, of "[]"] n
  have "issues z_null [Key ''system_fingerprint''] (map_of fs ''system_fingerprint'') = []"
    by simp
  then have "map_of fs ''system_fingerprint'' = Some JNull"
    by (auto split: option.splits json.splits)
  with d show ?thesis by simp
qed

theorem system_fingerprint_must_be_null_witness:
  "ChatCompletionSchema_safeParse
     (example_document (JNum (Finite 1700000000)) [] example_usage [(''system_fingerprint'', JNull)])
     = Inr (example_completion []) \<and>
   (\<exists>fs. example_document (JNum (Finite 1700000000)) [] example_usage [(''system_fingerprint'', JNull)]
       = JObj fs \<and> map_of fs ''system_fingerprint'' = Some JNull)"
proof -
  have h: "ChatCompletionSchema_safeParse
     (example_document (JNum (Finite 1700000000)) [] example_usage [(''system_fingerprint'', JNull)])
     = Inr (example_completion [])"
    by (simp add: ChatCompletionSchema_safeParse_def example_defs schema_defs reader_defs)
  from system_fingerprint_must_be_null [OF h] h show ?thesis by simp
qed

text \<open>
  Claim C7. When a key that the schema asks for is absent at some path of the document,
  or \<^verbatim>\<open>system_fingerprint\<close> holds a value other than \<^verbatim>\<open>null\<close>, \<^verbatim>\<open>safeParse\<close> fails,
  and the issues it returns contain one with exactly that path, the type the schema
  expects there and the type received (\<^verbatim>\<open>undefined\<close> for an absent key).
\<close>

theorem violation_names_offending_field:
  assumes l: "locate ChatCompletionSchema (Some data) p = Some (s, v)"
    and m: "v = None \<or> (p = [Key ''system_fingerprint''] \<and> v \<noteq> Some JNull)"
  shows "\<exists>errors. ChatCompletionSchema_safeParse data = Inl errors \<and>
    invalid_type p (expected_type s) (getParsedType v) \<in> set errors"
proof (rule located_issue_fails [OF l])
  from m show "invalid_type p (expected_type s) (getParsedType v) \<in> set (issues s p v)"
  proof
    assume "v = None"
    then show ?thesis by (simp add: issues_undefined)
  next
    assume a: "p = [Key ''system_fingerprint''] \<and> v \<noteq> Some JNull"
    with l have "s = z_null" unfolding ChatCompletionSchema_def
      by (auto elim!: locate_object_Key)
    with a show ?thesis by (auto split: option.splits json.splits)
  qed
qed

theorem violation_names_offending_field_witness:
  "locate ChatCompletionSchema
     (Some (example_document (JNum (Finite 1700000000)) []
        [(''prompt_tokens'', JNum (Finite 9)), (''completion_tokens'', JNum (Finite 1))]
        [(''system_fingerprint'', JStr ''fp_44709d6fcb'')]))
     [Key ''usage'', Key ''total_tokens''] = Some (z_number, None) \<and>
   locate ChatCompletionSchema
     (Some (example_document (JNum (Finite 1700000000)) []
        [(''prompt_tokens'', JNum (Finite 9)), (''completion_tokens'', JNum (Finite 1))]
        [(''system_fingerprint'', JStr ''fp_44709d6fcb'')]))
     [Key ''system_fingerprint''] = Some (z_null, Some (JStr ''fp_44709d6fcb'')) \<and>
   (\<exists>errors. ChatCompletionSchema_safeParse
       (example_document (JNum (Finite 1700000000)) []
          [(''prompt_tokens'', JNum (Finite 9)), (''completion_tokens'', JNum (Finite 1))]
          [(''system_fingerprint'', JStr ''fp_44709d6fcb'')]) = Inl errors \<and>
      invalid_type [Key ''usage'', Key ''total_tokens''] PT_number PT_undefined \<in> set errors \<and>
      invalid_type [Key ''system_fingerprint''] PT_null PT_string \<in> set errors)"
proof -
  let ?d = "example_document (JNum (Finite 1700000000)) []
        [(''prompt_tokens'', JNum (Finite 9)), (''completion_tokens'', JNum (Finite 1))]
        [(''system_fingerprint'', JStr ''fp_44709d6fcb'')]"
  have l1: "locate ChatCompletionSchema (Some ?d) [Key ''usage'', Key ''total_tokens'']
      = Some (z_number, None)"
    by (simp add: example_defs schema_defs)
  have l2: "locate ChatCompletionSchema (Some ?d) [Key ''system_fingerprint'']
      = Some (z_null, Some (JStr ''fp_44709d6fcb''))"
    by (simp add: example_defs schema_defs)
  from violation_names_offending_field [OF l1] violation_names_offending_field [OF l2] l1 l2
  show ?thesis by auto
qed

section \<open>Rendering\<close>

lemma renderTokenColumns_first_choice:
  "choices c = choice0 # rest \<Longrightarrow>
   renderTokenColumns percent (Some c) =
     Inr (Some (map (\<lambda>(i, tok). render_column percent tok i)
                  (enumerate 0 (logprobs_content (logprobs choice0)))))"
  by (simp add: renderTokenColumns_def)

lemma nth_rendered_column:
  "i < length toks \<Longrightarrow>
   map (\<lambda>(i, tok). render_column percent tok i) (enumerate 0 toks) ! i
     = render_column percent (toks ! i) i"
  by (simp add: nth_enumerate_eq)

lemma nth_rendered_cell:
  "k < length (top_logprobs tok) \<Longrightarrow>
   column_cells (render_column percent tok i) ! k
     = render_alternative percent tok (top_logprobs tok ! k) k"
  by (simp add: render_column_def nth_enumerate_eq)

lemma column_headers:
  "map column_header (map (\<lambda>(i, tok). render_column percent tok i) (enumerate n toks))
     = map token toks"
  by (induction toks arbitrary: n) (simp_all add: render_column_def)

lemma column_keys:
  "map column_key (map (\<lambda>(i, tok). render_column percent tok i) (enumerate n toks))
     = [n ..< n + length toks]"
  by (induction toks arbitrary: n) (simp_all add: render_column_def upt_rec)

lemma cell_tokens:
  "map cell_token (map (\<lambda>(k, alt). render_alternative percent tok alt k) (enumerate n alts))
     = map top_token alts"
  by (induction alts arbitrary: n) (simp_all add: render_alternative_def)

lemma cell_percents:
  "map cell_percent (map (\<lambda>(k, alt). render_alternative percent tok alt k) (enumerate n alts))
     = map (\<lambda>alt. percent (top_logprob alt)) alts"
  by (induction alts arbitrary: n) (simp_all add: render_alternative_def)

lemma cell_keys:
  "map cell_key (map (\<lambda>(k, alt). render_alternative percent tok alt k) (enumerate n alts))
     = [n ..< n + length alts]"
  by (induction alts arbitrary: n) (simp_all add: render_alternative_def upt_rec)

lemma isChosen_render_alternative:
  "isChosen (render_alternative percent tok alt k) \<longleftrightarrow> top_token alt = token tok"
  by (simp add: isChosen_def render_alternative_def)

text \<open>
  Claim C2. With a first choice present, \<^verbatim>\<open>renderTokenColumns\<close> returns one column for
  each emitted token and one cell for each of its alternatives, and the cell of an
  alternative carries the highlighting class if and only if the alternative's token text
  equals the emitted token's text: every alternative with that text is marked and no
  other one is.
\<close>

theorem chosen_iff_same_text:
  assumes c: "choices c = choice0 # rest"
  shows "\<exists>columns. renderTokenColumns percent (Some c) = Inr (Some columns) \<and>
    length columns = length (logprobs_content (logprobs choice0)) \<and>
    (\<forall>i < length (logprobs_content (logprobs choice0)).
       length (column_cells (columns ! i))
         = length (top_logprobs (logprobs_content (logprobs choice0) ! i)) \<and>
       (\<forall>k < length (top_logprobs (logprobs_content (logprobs choice0) ! i)).
          cell_token (column_cells (columns ! i) ! k)
            = top_token (top_logprobs (logprobs_content (logprobs choice0) ! i) ! k) \<and>
          (isChosen (column_cells (columns ! i) ! k) \<longleftrightarrow>
             top_token (top_logprobs (logprobs_content (logprobs choice0) ! i) ! k)
               = token (logprobs_content (logprobs choice0) ! i))))"
proof -
  let ?toks = "logprobs_content (logprobs choice0)"
  let ?columns = "map (\<lambda>(i, tok). render_column percent tok i) (enumerate 0 ?toks)"
  have r: "renderTokenColumns percent (Some c) = Inr (Some ?columns)"
    using c by (rule renderTokenColumns_first_choice)
  have n: "length ?columns = length ?toks" by simp
  have cells: "length (column_cells (?columns ! i)) = length (top_logprobs (?toks ! i)) \<and>
       (\<forall>k < length (top_logprobs (?toks ! i)).
          cell_token (column_cells (?columns ! i) ! k) = top_token (top_logprobs (?toks ! i) ! k) \<and>
          (isChosen (column_cells (?columns ! i) ! k) \<longleftrightarrow>
             top_token (top_logprobs (?toks ! i) ! k) = token (?toks ! i)))"
    if i: "i < length ?toks" for i
  proof -
    have col: "?columns ! i = render_column percent (?toks ! i) i"
      using i by (rule nth_rendered_column)
    have len: "length (column_cells (render_column percent (?toks ! i) i))
        = length (top_logprobs (?toks ! i))"
      by (simp add: render_column_def)
    have each: "cell_token (column_cells (render_column percent (?toks ! i) i) ! k)
          = top_token (top_logprobs (?toks ! i) ! k) \<and>
        (isChosen (column_cells (render_column percent (?toks ! i) i) ! k) \<longleftrightarrow>
           top_token (top_logprobs (?toks ! i) ! k) = token (?toks ! i))"
      if k: "k < length (top_logprobs (?toks ! i))" for k
      by (simp add: nth_rendered_cell [OF k] isChosen_render_alternative)
        (simp add: render_alternative_def)
    from len each show ?thesis unfolding col by blast
  qed
  from r n cells show ?thesis by blast
qed

theorem chosen_iff_same_text_witness:
  "choices (example_completion [example_choice [example_token]])
     = example_choice [example_token] # [] \<and>
   (\<exists>columns.
      renderTokenColumns (\<lambda>_. ''0.000'') (Some (example_completion [example_choice [example_token]]))
        = Inr (Some columns) \<and>
      isChosen (column_cells (columns ! 0) ! 0) \<and> \<not> isChosen (column_cells (columns ! 0) ! 1))"
proof -
  have h: "choices (example_completion [example_choice [example_token]])
     = example_choice [example_token] # []"
    by (simp add: example_defs)
  have t: "logprobs_content (logprobs (example_choice [example_token])) = [example_token]"
    by (simp add: example_defs)
  from chosen_iff_same_text [OF h, of "\<lambda>_. ''0.000''"] obtain columns where
    r: "renderTokenColumns (\<lambda>_. ''0.000'') (Some (example_completion [example_choice [example_token]]))
        = Inr (Some columns)"
    and a: "\<forall>i < length [example_token].
       length (column_cells (columns ! i)) = length (top_logprobs ([example_token] ! i)) \<and>
       (\<forall>k < length (top_logprobs ([example_token] ! i)).
          cell_token (column_cells (columns ! i) ! k)
            = top_token (top_logprobs ([example_token] ! i) ! k) \<and>
          (isChosen (column_cells (columns ! i) ! k) \<longleftrightarrow>
             top_token (top_logprobs ([example_token] ! i) ! k) = token ([example_token] ! i)))"
    unfolding t by blast
  from a have b: "\<forall>k < length (top_logprobs example_token).
          isChosen (column_cells (columns ! 0) ! k) \<longleftrightarrow>
             top_token (top_logprobs example_token ! k) = token example_token"
    by simp
  have "isChosen (column_cells (columns ! 0) ! 0)"
    using b [rule_format, of 0] by (simp add: example_token_def)
  moreover have "\<not> isChosen (column_cells (columns ! 0) ! 1)"
    using b [rule_format, of 1] by (simp add: example_token_def)
  ultimately show ?thesis using h r by blast
qed

text \<open>
  Claim C8. With a first choice present, the columns follow the emitted tokens of
  \<^verbatim>\<open>choices[0]\<close> in their order (same number, headers and keys in sequence), and the
  cells of each column follow that token's alternatives in their order, none dropped
  and none moved.
\<close>

theorem columns_keep_order:
  assumes c: "choices c = choice0 # rest"
  shows "\<exists>columns. renderTokenColumns percent (Some c) = Inr (Some columns) \<and>
    length columns = length (logprobs_content (logprobs choice0)) \<and>
    map column_header columns = map token (logprobs_content (logprobs choice0)) \<and>
    map column_key columns = [0 ..< length (logprobs_content (logprobs choice0))] \<and>
    (\<forall>i < length (logprobs_content (logprobs choice0)).
       length (column_cells (columns ! i))
         = length (top_logprobs (logprobs_content (logprobs choice0) ! i)) \<and>
       map cell_token (column_cells (columns ! i))
         = map top_token (top_logprobs (logprobs_content (logprobs choice0) ! i)) \<and>
       map cell_percent (column_cells (columns ! i))
         = map (\<lambda>alt. percent (top_logprob alt))
             (top_logprobs (logprobs_content (logprobs choice0) ! i)) \<and>
       map cell_key (column_cells (columns ! i))
         = [0 ..< length (top_logprobs (logprobs_content (logprobs choice0) ! i))])"
proof -
  let ?toks = "logprobs_content (logprobs choice0)"
  let ?columns = "map (\<lambda>(i, tok). render_column percent tok i) (enumerate 0 ?toks)"
  have r: "renderTokenColumns percent (Some c) = Inr (Some ?columns)"
    using c by (rule renderTokenColumns_first_choice)
  have n: "length ?columns = length ?toks" by simp
  have h: "map column_header ?columns = map token ?toks"
    by (rule column_headers)
  have k: "map column_key ?columns = [0 ..< length ?toks]"
    using column_keys [of percent 0 ?toks] by simp
  have cells: "length (column_cells (?columns ! i)) = length (top_logprobs (?toks ! i)) \<and>
       map cell_token (column_cells (?columns ! i)) = map top_token (top_logprobs (?toks ! i)) \<and>
       map cell_percent (column_cells (?columns ! i))
         = map (\<lambda>alt. percent (top_logprob alt)) (top_logprobs (?toks ! i)) \<and>
       map cell_key (column_cells (?columns ! i)) = [0 ..< length (top_logprobs (?toks ! i))]"
    if i: "i < length ?toks" for i
  proof -
    have col: "?columns ! i = render_column percent (?toks ! i) i"
      using i by (rule nth_rendered_column)
    have cs: "column_cells (render_column percent (?toks ! i) i)
        = map (\<lambda>(k, alt). render_alternative percent (?toks ! i) alt k)
            (enumerate 0 (top_logprobs (?toks ! i)))"
      by (simp add: render_column_def)
    show ?thesis unfolding col cs
      using cell_keys [of percent "?toks ! i" 0 "top_logprobs (?toks ! i)"]
      by (simp only: cell_tokens cell_percents length_map length_enumerate) simp
  qed
  from r n h k cells show ?thesis by blast
qed

theorem columns_keep_order_witness:
  "choices (example_completion [example_choice [example_token]])
     = example_choice [example_token] # [] \<and>
   (\<exists>columns.
      renderTokenColumns (\<lambda>_. ''0.000'') (Some (example_completion [example_choice [example_token]]))
        = Inr (Some columns) \<and>
      map column_header columns = [''Hi''] \<and>
      map cell_token (column_cells (columns ! 0)) = [''Hi'', ''Hello''])"
proof -
  have h: "choices (example_completion [example_choice [example_token]])
     = example_choice [example_token] # []"
    by (simp add: example_defs)
  have t: "logprobs_content (logprobs (example_choice [example_token])) = [example_token]"
    by (simp add: example_defs)
  from columns_keep_order [OF h, of "\<lambda>_. ''0.000''"] obtain columns where
    r: "renderTokenColumns (\<lambda>_. ''0.000'') (Some (example_completion [example_choice [example_token]]))
        = Inr (Some columns)"
    and hd: "map column_header columns = map token [example_token]"
    and a: "\<forall>i < length [example_token].
       length (column_cells (columns ! i)) = length (top_logprobs ([example_token] ! i)) \<and>
       map cell_token (column_cells (columns ! i))
         = map top_token (top_logprobs ([example_token] ! i)) \<and>
       map cell_percent (column_cells (columns ! i))
         = map (\<lambda>alt. ''0.000'') (top_logprobs ([example_token] ! i)) \<and>
       map cell_key (column_cells (columns ! i))
         = [0 ..< length (top_logprobs ([example_token] ! i))]"
    unfolding t by blast
  from hd have x: "map column_header columns = [''Hi'']" by (simp add: example_token_def)
  from a have y: "map cell_token (column_cells (columns ! 0)) = [''Hi'', ''Hello'']"
    by (simp add: example_token_def)
  from r x y have "\<exists>columns.
      renderTokenColumns (\<lambda>_. ''0.000'') (Some (example_completion [example_choice [example_token]]))
        = Inr (Some columns) \<and>
      map column_header columns = [''Hi''] \<and>
      map cell_token (column_cells (columns ! 0)) = [''Hi'', ''Hello'']"
    by (intro exI [of _ columns] conjI)
  with h show ?thesis by (rule conjI)
qed

text \<open>
  Claim C10. When the first choice has no emitted token, \<^verbatim>\<open>renderTokenColumns\<close>
  returns the empty sequence of columns and throws nothing.
\<close>

theorem no_tokens_no_columns:
  assumes "choices c = choice0 # rest" and "logprobs_content (logprobs choice0) = []"
  shows "renderTokenColumns percent (Some c) = Inr (Some [])"
  using assms by (simp add: renderTokenColumns_def)

theorem no_tokens_no_columns_witness:
  "choices (example_completion [example_choice []]) = example_choice [] # [] \<and>
   logprobs_content (logprobs (example_choice [])) = [] \<and>
   renderTokenColumns (\<lambda>_. ''0.000'') (Some (example_completion [example_choice []]))
     = Inr (Some [])"
proof -
  have h: "choices (example_completion [example_choice []]) = example_choice [] # []"
    by (simp add: example_defs)
  have t: "logprobs_content (logprobs (example_choice [])) = []"
    by (simp add: example_defs)
  from no_tokens_no_columns [OF h t] h t show ?thesis by blast
qed

text \<open>
  Claim C3. A document with an empty \<^verbatim>\<open>choices\<close> array passes the validator, and
  rendering the completion it yields reads \<^verbatim>\<open>.logprobs\<close> of the absent
  \<^verbatim>\<open>choices[0]\<close>: a \<^verbatim>\<open>TypeError\<close> is thrown, where the claim asks for a guarded
  precondition error instead of the read.
\<close>

theorem empty_choices_TypeError:
  "ChatCompletionSchema_safeParse
     (example_document (JNum (Finite 1700000000)) [] example_usage [(''system_fingerprint'', JNull)])
     = Inr (example_completion []) \<and>
   renderTokenColumns percent (Some (example_completion [])) = Inl TypeError"
  by (simp add: ChatCompletionSchema_safeParse_def renderTokenColumns_def
      example_defs schema_defs reader_defs)

section \<open>The percentage\<close>











section \<open>Failed validation\<close>

text \<open>
  Claim C9. When \<^verbatim>\<open>safeParse\<close> fails on the fetched value, \<^verbatim>\<open>fetchCompletion\<close> leaves
  the held completion as it was (only \<^verbatim>\<open>loading\<close> is reset) and writes the issues to
  the console.
\<close>

theorem failed_validation_keeps_completion:
  assumes "ChatCompletionSchema_safeParse data = Inl errors"
  shows "fetchCompletion st (json_resolves data)
    = (st\<lparr>loading := False\<rparr>, [Error_parsing_completion errors]) \<and>
    completion (fst (fetchCompletion st (json_resolves data))) = completion st"
  using assms by (simp add: fetchCompletion_def)

theorem failed_validation_keeps_completion_witness:
  "ChatCompletionSchema_safeParse (JStr ''Unauthorized'')
     = Inl [invalid_type [] PT_object PT_string] \<and>
   completion (fst (fetchCompletion example_state (json_resolves (JStr ''Unauthorized''))))
     = Some (example_completion [])"
proof -
  have h: "ChatCompletionSchema_safeParse (JStr ''Unauthorized'')
     = Inl [invalid_type [] PT_object PT_string]"
    by (simp add: ChatCompletionSchema_safeParse_def ChatCompletionSchema_def)
  from failed_validation_keeps_completion [OF h, of example_state] h show ?thesis
    by (simp add: example_state_def)
qed

section \<open>Validated data has its inferred type\<close>

lemma those_map_total:
  "(\<And>x. x \<in> set xs \<Longrightarrow> \<exists>a. f x = Some a) \<Longrightarrow> \<exists>as. those (map f xs) = Some as"
proof (induction xs)
  case Nil
  then show ?case by simp
next
  case (Cons x xs)
  from Cons.prems [of x] obtain a where "f x = Some a" by auto
  moreover from Cons obtain as where "those (map f xs) = Some as" by auto
  ultimately show ?case by simp
qed

lemma issues_elems_Nil:
  "issues_elems s p n xs = [] \<Longrightarrow> x \<in> set xs \<Longrightarrow> \<exists>q. issues s q (Some x) = []"
  by (induction xs arbitrary: n) auto

lemma as_array_total:
  assumes "issues (z_array s) p v = []"
    and "\<And>q x. issues s q (Some x) = [] \<Longrightarrow> \<exists>a. f (Some x) = Some a"
  shows "\<exists>as. as_array f v = Some as"
proof -
  from assms(1) obtain xs where v: "v = Some (JArr xs)" and e: "issues_elems s p 0 xs = []"
    by (auto split: option.splits json.splits)
  have "\<exists>as. those (map (\<lambda>x. f (Some x)) xs) = Some as"
  proof (rule those_map_total)
    fix x assume "x \<in> set xs"
    from issues_elems_Nil [OF e this] assms(2) show "\<exists>a. f (Some x) = Some a" by blast
  qed
  then show ?thesis by (simp add: as_array_def v)
qed

lemma as_string_total: "issues z_string p v = [] \<Longrightarrow> \<exists>a. as_string v = Some a"
  by (auto split: option.splits json.splits)

lemma as_number_total: "issues z_number p v = [] \<Longrightarrow> \<exists>a. as_number v = Some a"
  by (auto split: option.splits json.splits)

lemma as_null_total: "issues z_null p v = [] \<Longrightarrow> \<exists>a. as_null v = Some a"
  by (auto split: option.splits json.splits)

lemma as_nullable_total:
  assumes "issues (z_nullable s) p v = []"
    and "issues s p v = [] \<Longrightarrow> \<exists>a. f v = Some a"
  shows "\<exists>a. as_nullable f v = Some a"
proof (cases "v = Some JNull")
  case True
  then show ?thesis by (simp add: as_nullable_def)
next
  case False
  with assms(1) have "issues s p v = []" by (auto split: option.splits json.splits)
  with assms(2) obtain a where "f v = Some a" by blast
  with False show ?thesis by (auto simp: as_nullable_def split: option.splits json.splits)
qed

lemma as_object_total:
  "issues (z_object shape) p v = [] \<Longrightarrow>
   \<exists>fs. v = Some (JObj fs) \<and> as_object v = Some (map_of fs) \<and> issues_shape shape p fs = []"
  by (auto split: option.splits json.splits)

lemma as_TopLogProb_total:
  assumes "issues TopLogProbSchema p v = []"
  shows "\<exists>a. as_TopLogProb v = Some a"
proof -
  from as_object_total [OF assms [unfolded TopLogProbSchema_def]] obtain fs
    where v: "as_object v = Some (map_of fs)"
      and t: "issues z_string (p @ [Key ''token'']) (map_of fs ''token'') = []"
      and l: "issues z_number (p @ [Key ''logprob'']) (map_of fs ''logprob'') = []"
      and b: "issues (z_nullable (z_array z_number)) (p @ [Key ''bytes'']) (map_of fs ''bytes'') = []"
    by auto
  from t obtain t' where t': "as_string (map_of fs ''token'') = Some t'"
    by (blast dest: as_string_total)
  from l obtain l' where l': "as_number (map_of fs ''logprob'') = Some l'"
    by (blast dest: as_number_total)
  from b have "\<exists>a. as_nullable (as_array as_number) (map_of fs ''bytes'') = Some a"
    by (rule as_nullable_total) (rule as_array_total, assumption, rule as_number_total)
  then obtain b' where b': "as_nullable (as_array as_number) (map_of fs ''bytes'') = Some b'"
    by blast
  show ?thesis by (simp add: as_TopLogProb_def v t' l' b')
qed

lemma as_LogProbContent_total:
  assumes "issues LogProbContentSchema p v = []"
  shows "\<exists>a. as_LogProbContent v = Some a"
proof -
  from as_object_total [OF assms [unfolded LogProbContentSchema_def]] obtain fs
    where v: "as_object v = Some (map_of fs)"
      and t: "issues z_string (p @ [Key ''token'']) (map_of fs ''token'') = []"
      and l: "issues z_number (p @ [Key ''logprob'']) (map_of fs ''logprob'') = []"
      and b: "issues (z_array z_number) (p @ [Key ''bytes'']) (map_of fs ''bytes'') = []"
      and a: "issues (z_array TopLogProbSchema) (p @ [Key ''top_logprobs''])
                (map_of fs ''top_logprobs'') = []"
    by auto
  from t obtain t' where t': "as_string (map_of fs ''token'') = Some t'"
    by (blast dest: as_string_total)
  from l obtain l' where l': "as_number (map_of fs ''logprob'') = Some l'"
    by (blast dest: as_number_total)
  from b have "\<exists>a. as_array as_number (map_of fs ''bytes'') = Some a"
    by (rule as_array_total) (rule as_number_total)
  then obtain b' where b': "as_array as_number (map_of fs ''bytes'') = Some b'" by blast
  from a have "\<exists>a. as_array as_TopLogProb (map_of fs ''top_logprobs'') = Some a"
    by (rule as_array_total) (rule as_TopLogProb_total)
  then obtain a' where a': "as_array as_TopLogProb (map_of fs ''top_logprobs'') = Some a'"
    by blast
  show ?thesis by (simp add: as_LogProbContent_def v t' l' b' a')
qed

lemma as_Message_total:
  assumes "issues MessageSchema p v = []"
  shows "\<exists>a. as_Message v = Some a"
proof -
  from as_object_total [OF assms [unfolded MessageSchema_def]] obtain fs
    where v: "as_object v = Some (map_of fs)"
      and r: "issues z_string (p @ [Key ''role'']) (map_of fs ''role'') = []"
      and c: "issues z_string (p @ [Key ''content'']) (map_of fs ''content'') = []"
    by auto
  from r obtain r' where r': "as_string (map_of fs ''role'') = Some r'"
    by (blast dest: as_string_total)
  from c obtain c' where c': "as_string (map_of fs ''content'') = Some c'"
    by (blast dest: as_string_total)
  show ?thesis by (simp add: as_Message_def v r' c')
qed

lemma as_LogProbs_total:
  assumes "issues (z_object [(''content'', z_array LogProbContentSchema)]) p v = []"
  shows "\<exists>a. as_LogProbs v = Some a"
proof -
  from as_object_total [OF assms] obtain fs
    where v: "as_object v = Some (map_of fs)"
      and c: "issues (z_array LogProbContentSchema) (p @ [Key ''content''])
                (map_of fs ''content'') = []"
    by auto
  from c have "\<exists>a. as_array as_LogProbContent (map_of fs ''content'') = Some a"
    by (rule as_array_total) (rule as_LogProbContent_total)
  then obtain c' where c': "as_array as_LogProbContent (map_of fs ''content'') = Some c'"
    by blast
  show ?thesis by (simp add: as_LogProbs_def v c')
qed

lemma as_Choice_total:
  assumes "issues ChoiceSchema p v = []"
  shows "\<exists>a. as_Choice v = Some a"
proof -
  from as_object_total [OF assms [unfolded ChoiceSchema_def]] obtain fs
    where v: "as_object v = Some (map_of fs)"
      and i: "issues z_number (p @ [Key ''index'']) (map_of fs ''index'') = []"
      and m: "issues MessageSchema (p @ [Key ''message'']) (map_of fs ''message'') = []"
      and l: "issues (z_object [(''content'', z_array LogProbContentSchema)])
                (p @ [Key ''logprobs'']) (map_of fs ''logprobs'') = []"
      and f: "issues z_string (p @ [Key ''finish_reason'']) (map_of fs ''finish_reason'') = []"
    by auto
  from i obtain i' where i': "as_number (map_of fs ''index'') = Some i'"
    by (blast dest: as_number_total)
  from m obtain m' where m': "as_Message (map_of fs ''message'') = Some m'"
    by (blast dest: as_Message_total)
  from l obtain l' where l': "as_LogProbs (map_of fs ''logprobs'') = Some l'"
    by (blast dest: as_LogProbs_total)
  from f obtain f' where f': "as_string (map_of fs ''finish_reason'') = Some f'"
    by (blast dest: as_string_total)
  show ?thesis by (simp add: as_Choice_def v i' m' l' f')
qed

lemma as_Usage_total:
  assumes "issues UsageSchema p v = []"
  shows "\<exists>a. as_Usage v = Some a"
proof -
  from as_object_total [OF assms [unfolded UsageSchema_def]] obtain fs
    where v: "as_object v = Some (map_of fs)"
      and a: "issues z_number (p @ [Key ''prompt_tokens'']) (map_of fs ''prompt_tokens'') = []"
      and b: "issues z_number (p @ [Key ''completion_tokens''])
                (map_of fs ''completion_tokens'') = []"
      and c: "issues z_number (p @ [Key ''total_tokens'']) (map_of fs ''total_tokens'') = []"
    by auto
  from a obtain a' where a': "as_number (map_of fs ''prompt_tokens'') = Some a'"
    by (blast dest: as_number_total)
  from b obtain b' where b': "as_number (map_of fs ''completion_tokens'') = Some b'"
    by (blast dest: as_number_total)
  from c obtain c' where c': "as_number (map_of fs ''total_tokens'') = Some c'"
    by (blast dest: as_number_total)
  show ?thesis by (simp add: as_Usage_def v a' b' c')
qed

lemma as_ChatCompletion_total:
  assumes "issues ChatCompletionSchema p v = []"
  shows "\<exists>a. as_ChatCompletion v = Some a"
proof -
  from as_object_total [OF assms [unfolded ChatCompletionSchema_def]] obtain fs
    where v: "as_object v = Some (map_of fs)"
      and i: "issues z_string (p @ [Key ''id'']) (map_of fs ''id'') = []"
      and ob: "issues z_string (p @ [Key ''object'']) (map_of fs ''object'') = []"
      and cr: "issues z_number (p @ [Key ''created'']) (map_of fs ''created'') = []"
      and mo: "issues z_string (p @ [Key ''model'']) (map_of fs ''model'') = []"
      and ch: "issues (z_array ChoiceSchema) (p @ [Key ''choices'']) (map_of fs ''choices'') = []"
      and us: "issues UsageSchema (p @ [Key ''usage'']) (map_of fs ''usage'') = []"
      and fp: "issues z_null (p @ [Key ''system_fingerprint''])
                 (map_of fs ''system_fingerprint'') = []"
    by auto
  from i obtain i' where i': "as_string (map_of fs ''id'') = Some i'"
    by (blast dest: as_string_total)
  from ob obtain ob' where ob': "as_string (map_of fs ''object'') = Some ob'"
    by (blast dest: as_string_total)
  from cr obtain cr' where cr': "as_number (map_of fs ''created'') = Some cr'"
    by (blast dest: as_number_total)
  from mo obtain mo' where mo': "as_string (map_of fs ''model'') = Some mo'"
    by (blast dest: as_string_total)
  from ch have "\<exists>a. as_array as_Choice (map_of fs ''choices'') = Some a"
    by (rule as_array_total) (rule as_Choice_total)
  then obtain ch' where ch': "as_array as_Choice (map_of fs ''choices'') = Some ch'" by blast
  from us obtain us' where us': "as_Usage (map_of fs ''usage'') = Some us'"
    by (blast dest: as_Usage_total)
  from fp obtain fp' where fp': "as_null (map_of fs ''system_fingerprint'') = Some fp'"
    by (blast dest: as_null_total)
  show ?thesis by (simp add: as_ChatCompletion_def v i' ob' cr' mo' ch' us' fp')
qed

lemma safeParse_failure_has_issue:
  "ChatCompletionSchema_safeParse data = Inl errors \<Longrightarrow> errors \<noteq> []"
  using as_ChatCompletion_total [of "[]" "Some data"]
  by (auto simp: ChatCompletionSchema_safeParse_def split: list.splits option.splits)

section \<open>Round trip\<close>

lemma issues_elems_map:
  "(\<And>x q. issues s q (Some (f x)) = []) \<Longrightarrow> issues_elems s p n (map f xs) = []"
  by (induction xs arbitrary: n) simp_all

lemma those_map_Some: "those (map Some xs) = Some xs"
  by (induction xs) simp_all

lemma as_array_serialize:
  "(\<And>x. g (Some (f x)) = Some x) \<Longrightarrow> as_array g (Some (JArr (map f xs))) = Some xs"
  by (simp add: as_array_def comp_def those_map_Some)

lemma as_number_JNum: "as_number (Some (JNum r)) = Some r"
  by simp

lemma TopLogProb_issues: "issues TopLogProbSchema p (Some (serialize_TopLogProb t)) = []"
  by (simp add: TopLogProbSchema_def serialize_TopLogProb_def issues_elems_map
      split: option.splits)

lemma TopLogProb_read: "as_TopLogProb (Some (serialize_TopLogProb t)) = Some t"
  by (cases "top_bytes t")
    (simp_all add: as_TopLogProb_def serialize_TopLogProb_def as_nullable_def
      as_array_serialize [of as_number JNum, OF as_number_JNum])

lemma LogProbContent_issues:
  "issues LogProbContentSchema p (Some (serialize_LogProbContent t)) = []"
  by (simp add: LogProbContentSchema_def serialize_LogProbContent_def issues_elems_map
      TopLogProb_issues)

lemma LogProbContent_read: "as_LogProbContent (Some (serialize_LogProbContent t)) = Some t"
  by (simp add: as_LogProbContent_def serialize_LogProbContent_def
      as_array_serialize [of as_number JNum, OF as_number_JNum]
      as_array_serialize [of as_TopLogProb serialize_TopLogProb, OF TopLogProb_read])

lemma Choice_issues: "issues ChoiceSchema p (Some (serialize_Choice ch)) = []"
  by (simp add: ChoiceSchema_def MessageSchema_def serialize_Choice_def serialize_Message_def
      issues_elems_map LogProbContent_issues)

lemma Choice_read: "as_Choice (Some (serialize_Choice ch)) = Some ch"
  by (simp add: as_Choice_def as_Message_def as_LogProbs_def serialize_Choice_def
      serialize_Message_def
      as_array_serialize [of as_LogProbContent serialize_LogProbContent, OF LogProbContent_read])

lemma ChatCompletion_issues: "issues ChatCompletionSchema p (Some (serialize c)) = []"
  by (simp add: ChatCompletionSchema_def UsageSchema_def serialize_def serialize_Usage_def
      issues_elems_map Choice_issues)

lemma ChatCompletion_read: "as_ChatCompletion (Some (serialize c)) = Some c"
  by (simp add: as_ChatCompletion_def as_Usage_def serialize_def serialize_Usage_def
      as_array_serialize [of as_Choice serialize_Choice, OF Choice_read])

text \<open>
  Claim C6. For every typed completion, \<^verbatim>\<open>safeParse\<close> of its JSON form succeeds and
  yields that completion again.
\<close>

theorem validate_serialize:
  "ChatCompletionSchema_safeParse (serialize c) = Inr c"
  by (simp add: ChatCompletionSchema_safeParse_def ChatCompletion_issues ChatCompletion_read)

end
